theory Spec2Isabelle
  imports Complex_Main
begin

section \<open>Order-to-holdings reconciliation of the trading backend\<close>

text \<open>
  A shallow embedding of the order and holdings handlers of the Express backend
  (\<^verbatim>\<open>updateHoldings\<close>, \<^verbatim>\<open>POST /newOrder\<close>, \<^verbatim>\<open>POST /order/:id/confirm\<close>,
  \<^verbatim>\<open>POST /order/:id/reject\<close>, \<^verbatim>\<open>GET /repair-holdings\<close>).

  Modelling decisions:
  \<^item> The two MongoDB collections are lists of documents in insertion order; \<^verbatim>\<open>findOne\<close>
    and \<^verbatim>\<open>findById\<close> return the first match, \<^verbatim>\<open>save\<close> on a document that was found
    replaces that document, \<^verbatim>\<open>save\<close> on a new document appends it, \<^verbatim>\<open>deleteOne\<close>
    removes the first match.
  \<^item> Quantities and prices are exact rationals: rounding and overflow are outside the
    model. The average of a holding is the one number that a division produces, so it
    is a \<open>number\<close>, which also has JavaScript's \<^verbatim>\<open>Infinity\<close>, \<^verbatim>\<open>-Infinity\<close> and
    \<^verbatim>\<open>NaN\<close>; saving a document whose average is \<^verbatim>\<open>NaN\<close> throws a validation error.
  \<^item> Strings are ASCII. The \<^verbatim>\<open>name\<close> of an order may be absent (the schema does not
    require it, and \<^verbatim>\<open>order.name.toUpperCase()\<close> then throws); an absent quantity, price
    or mode is the falsy value 0 or the empty string, which every handler treats alike.
  \<^item> The store itself never fails. Console output is not modelled.
\<close>

subsection \<open>Numbers\<close>

datatype number = Num rat | PosInf | NegInf | NaN

text \<open>\<^verbatim>\<open>x * b\<close>, \<^verbatim>\<open>x + b\<close> and \<^verbatim>\<open>x / d\<close> for a finite \<open>b\<close> and \<open>d\<close>; a zero divisor is \<^verbatim>\<open>+0\<close>.\<close>

fun times_number :: "number \<Rightarrow> rat \<Rightarrow> number" where
  "times_number (Num a) b = Num (a * b)"
| "times_number PosInf b = (if b = 0 then NaN else if 0 < b then PosInf else NegInf)"
| "times_number NegInf b = (if b = 0 then NaN else if 0 < b then NegInf else PosInf)"
| "times_number NaN b = NaN"

fun plus_number :: "number \<Rightarrow> rat \<Rightarrow> number" where
  "plus_number (Num a) b = Num (a + b)"
| "plus_number PosInf b = PosInf"
| "plus_number NegInf b = NegInf"
| "plus_number NaN b = NaN"

fun divide_number :: "number \<Rightarrow> rat \<Rightarrow> number" where
  "divide_number (Num a) d =
     (if d \<noteq> 0 then Num (a / d) else if a = 0 then NaN else if 0 < a then PosInf else NegInf)"
| "divide_number PosInf d = (if 0 \<le> d then PosInf else NegInf)"
| "divide_number NegInf d = (if 0 \<le> d then NegInf else PosInf)"
| "divide_number NaN d = NaN"

subsection \<open>Documents\<close>

text \<open>\<^verbatim>\<open>OrdersSchema\<close>; \<open>oid\<close> is the document's \<^verbatim>\<open>_id\<close>.\<close>

record order =
  oid :: nat
  name :: "string option"
  qty :: rat
  price :: rat
  mode :: string
  is_voice_order :: bool
  is_simulated :: bool
  status :: string

text \<open>The holdings schema, as the backend documents it.\<close>

record holding =
  name :: string
  qty :: rat
  avg :: number
  price :: rat
  net :: string
  day :: string

record state =
  orders :: "order list"
  holdings :: "holding list"

subsection \<open>Strings\<close>

definition upper_char :: "char \<Rightarrow> char" where
  "upper_char c =
     (let n = (of_char c :: nat) in if 97 \<le> n \<and> n \<le> 122 then char_of (n - 32) else c)"

definition lower_char :: "char \<Rightarrow> char" where
  "lower_char c =
     (let n = (of_char c :: nat) in if 65 \<le> n \<and> n \<le> 90 then char_of (n + 32) else c)"

definition toUpperCase :: "string \<Rightarrow> string" where
  "toUpperCase s = map upper_char s"

definition toLowerCase :: "string \<Rightarrow> string" where
  "toLowerCase s = map lower_char s"

subsection \<open>Collections\<close>

fun replaceFirst :: "('a \<Rightarrow> bool) \<Rightarrow> 'a \<Rightarrow> 'a list \<Rightarrow> 'a list" where
  "replaceFirst P y [] = []"
| "replaceFirst P y (x # xs) = (if P x then y # xs else x # replaceFirst P y xs)"

fun deleteFirst :: "('a \<Rightarrow> bool) \<Rightarrow> 'a list \<Rightarrow> 'a list" where
  "deleteFirst P [] = []"
| "deleteFirst P (x # xs) = (if P x then xs else x # deleteFirst P xs)"

text \<open>\<^verbatim>\<open>HoldingsModel.findOne({ name: n })\<close>\<close>

definition findOne :: "holding list \<Rightarrow> string \<Rightarrow> holding option" where
  "findOne hs n = find (\<lambda>h. holding.name h = n) hs"

text \<open>\<^verbatim>\<open>existingHolding.save()\<close> for the document that \<open>findOne hs n\<close> returned.\<close>

definition saveHolding :: "string \<Rightarrow> holding \<Rightarrow> holding list \<Rightarrow> holding list" where
  "saveHolding n h hs = replaceFirst (\<lambda>h. holding.name h = n) h hs"

text \<open>\<^verbatim>\<open>HoldingsModel.deleteOne({ name: n })\<close>\<close>

definition deleteOne :: "string \<Rightarrow> holding list \<Rightarrow> holding list" where
  "deleteOne n hs = deleteFirst (\<lambda>h. holding.name h = n) hs"

text \<open>\<^verbatim>\<open>OrdersModel.findById(id)\<close>\<close>

definition findById :: "order list \<Rightarrow> nat \<Rightarrow> order option" where
  "findById os i = find (\<lambda>ord. oid ord = i) os"

text \<open>\<^verbatim>\<open>order.save()\<close> for a document that \<open>findById\<close> returned.\<close>

definition saveOrder :: "order \<Rightarrow> order list \<Rightarrow> order list" where
  "saveOrder ord os = replaceFirst (\<lambda>x. oid x = oid ord) ord os"

text \<open>The \<^verbatim>\<open>_id\<close> of a new order document: any identifier that the collection does not use.\<close>

definition fresh_id :: "order list \<Rightarrow> nat" where
  "fresh_id os = Suc (fold max (map oid os) 0)"

subsection \<open>\<^verbatim>\<open>updateHoldings\<close>\<close>

text \<open>
  The two errors that \<^verbatim>\<open>updateHoldings\<close> throws itself, and the validation error of
  \<^verbatim>\<open>save()\<close> for an average that is \<^verbatim>\<open>NaN\<close>.
\<close>

datatype error = Invalid_parameters | Invalid_mode | Validation_error

text \<open>
  The result is the new holdings collection and the returned document (\<open>None\<close> is
  JavaScript's \<^verbatim>\<open>null\<close>); \<open>Inl\<close> is a thrown error, which leaves the collection as it was.
  In the BUY branch for an existing holding the total quantity can be zero: the quotient
  is then \<^verbatim>\<open>NaN\<close> (for a zero total cost), which \<^verbatim>\<open>save()\<close> refuses, or an infinity, which
  is stored.
\<close>

definition updateHoldings ::
  "holding list \<Rightarrow> string option \<Rightarrow> rat \<Rightarrow> rat \<Rightarrow> string
     \<Rightarrow> error + (holding list \<times> holding option)"
where
  "updateHoldings hs n q p m =
     (case n of
        None \<Rightarrow> Inl Invalid_parameters
      | Some nm \<Rightarrow>
          if nm = [] \<or> q = 0 \<or> p = 0 \<or> m = [] then Inl Invalid_parameters
          else
            let stockName = toUpperCase nm; orderMode = toLowerCase m in
            if orderMode = ''buy'' then
              (case findOne hs stockName of
                 Some existingHolding \<Rightarrow>
                   let totalQty = qty existingHolding + q;
                       totalCost = plus_number
                         (times_number (avg existingHolding) (qty existingHolding)) (p * q);
                       newAvg = divide_number totalCost totalQty;
                       saved = existingHolding\<lparr>qty := totalQty, avg := newAvg, price := p\<rparr>
                   in if newAvg = NaN then Inl Validation_error
                      else Inr (saveHolding stockName saved hs, Some saved)
               | None \<Rightarrow>
                   let newHolding = \<lparr>holding.name = stockName, qty = q, avg = Num p, price = p,
                                      net = ''0%'', day = ''0%''\<rparr>
                   in Inr (hs @ [newHolding], Some newHolding))
            else if orderMode = ''sell'' then
              (case findOne hs stockName of
                 Some existingHolding \<Rightarrow>
                   let reduced = existingHolding\<lparr>qty := qty existingHolding - q\<rparr> in
                   if qty reduced \<le> 0 then Inr (deleteOne stockName hs, None)
                   else Inr (saveHolding stockName reduced hs, Some reduced)
               | None \<Rightarrow> Inr (hs, None))
            else Inl Invalid_mode)"

text \<open>The call \<^verbatim>\<open>updateHoldings(order.name, order.qty, order.price, order.mode)\<close>.\<close>

definition updateHoldingsFor ::
  "holding list \<Rightarrow> order \<Rightarrow> error + (holding list \<times> holding option)" where
  "updateHoldingsFor hs ord =
     updateHoldings hs (order.name ord) (order.qty ord) (order.price ord) (mode ord)"

subsection \<open>\<^verbatim>\<open>POST /newOrder\<close>\<close>

datatype newOrder_response =
  Order_placed order bool
| Holdings_update_failed order

definition newOrder ::
  "state \<Rightarrow> string option \<Rightarrow> rat \<Rightarrow> rat \<Rightarrow> string \<Rightarrow> bool \<Rightarrow> bool
     \<Rightarrow> state \<times> newOrder_response"
where
  "newOrder st nm q p m voice simulated =
     (let needsConfirmation = (voice \<or> simulated);
          newOrder = \<lparr>oid = fresh_id (orders st), order.name = nm, order.qty = q,
                       order.price = p, mode = m, is_voice_order = voice,
                       is_simulated = simulated,
                       status = (if needsConfirmation then ''pending'' else ''executed'')\<rparr>;
          st1 = st\<lparr>orders := orders st @ [newOrder]\<rparr>
      in if \<not> needsConfirmation then
           (case updateHoldings (holdings st1) nm q p m of
              Inr (hs, _) \<Rightarrow> (st1\<lparr>holdings := hs\<rparr>, Order_placed newOrder needsConfirmation)
            | Inl _ \<Rightarrow> (st1, Holdings_update_failed newOrder))
         else (st1, Order_placed newOrder needsConfirmation))"

subsection \<open>\<^verbatim>\<open>POST /order/:id/confirm\<close>\<close>

text \<open>
  \<open>Failed_to_confirm_order\<close> is the answer of the handler's outer \<^verbatim>\<open>catch\<close>, reached when
  \<^verbatim>\<open>order.name.toUpperCase()\<close> throws.
\<close>

datatype confirm_response =
  Order_not_found
| Order_already_executed
| Holdings_creation_failed order
| Failed_to_update_holdings error order
| Failed_to_confirm_order
| Order_confirmed order

text \<open>The end of the handler: the status is set, the order saved and returned.\<close>

definition executeOrder :: "state \<Rightarrow> holding list \<Rightarrow> order \<Rightarrow> state \<times> confirm_response" where
  "executeOrder st hs ord =
     (let executed = ord\<lparr>status := ''executed''\<rparr>
      in (\<lparr>orders = saveOrder executed (orders st), holdings = hs\<rparr>, Order_confirmed executed))"

definition confirm :: "state \<Rightarrow> nat \<Rightarrow> state \<times> confirm_response" where
  "confirm st i =
     (case findById (orders st) i of
        None \<Rightarrow> (st, Order_not_found)
      | Some ord \<Rightarrow>
          if status ord = ''executed'' then (st, Order_already_executed)
          else
            (case updateHoldingsFor (holdings st) ord of
               Inl e \<Rightarrow> (st, Failed_to_update_holdings e ord)
             | Inr (hs, _) \<Rightarrow>
                 if toLowerCase (mode ord) = ''buy'' then
                   (case order.name ord of
                      None \<Rightarrow> (st\<lparr>holdings := hs\<rparr>, Failed_to_confirm_order)
                    | Some nm \<Rightarrow>
                        if findOne hs (toUpperCase nm) = None
                        then (st\<lparr>holdings := hs\<rparr>, Holdings_creation_failed ord)
                        else executeOrder st hs ord)
                 else executeOrder st hs ord))"

subsection \<open>\<^verbatim>\<open>POST /order/:id/reject\<close>\<close>

datatype reject_response =
  Reject_not_found
| Cannot_reject_executed
| Order_rejected order

definition reject :: "state \<Rightarrow> nat \<Rightarrow> state \<times> reject_response" where
  "reject st i =
     (case findById (orders st) i of
        None \<Rightarrow> (st, Reject_not_found)
      | Some ord \<Rightarrow>
          if status ord = ''executed'' then (st, Cannot_reject_executed)
          else
            let rejected = ord\<lparr>status := ''rejected''\<rparr>
            in (st\<lparr>orders := saveOrder rejected (orders st)\<rparr>, Order_rejected rejected))"

subsection \<open>\<^verbatim>\<open>GET /repair-holdings\<close>\<close>

datatype missing_entry =
  Repaired nat string rat rat
| Repair_error nat string error

text \<open>
  The answer: \<^verbatim>\<open>fixed\<close>, \<^verbatim>\<open>missing\<close> and \<^verbatim>\<open>total_checked\<close>, or the status 500 of the
  handler's outer \<^verbatim>\<open>catch\<close>.
\<close>

datatype repair_response =
  Repair_complete nat "missing_entry list" nat
| Failed_to_repair_holdings

text \<open>
  The \<^verbatim>\<open>for\<close> loop over the executed BUY orders, with its two accumulators. The lookup
  \<^verbatim>\<open>order.name.toUpperCase()\<close> is outside the inner \<^verbatim>\<open>try\<close>: for an order without a name
  it throws, the loop ends there (\<open>None\<close>) and the holdings written so far stay.
\<close>

fun repair_loop ::
  "order list \<Rightarrow> holding list \<Rightarrow> nat \<Rightarrow> missing_entry list
     \<Rightarrow> holding list \<times> (nat \<times> missing_entry list) option" where
  "repair_loop [] hs fx ms = (hs, Some (fx, ms))"
| "repair_loop (ord # rest) hs fx ms =
     (case order.name ord of
        None \<Rightarrow> (hs, None)
      | Some nm \<Rightarrow>
          (case findOne hs (toUpperCase nm) of
             Some _ \<Rightarrow> repair_loop rest hs fx ms
           | None \<Rightarrow>
               (case updateHoldingsFor hs ord of
                  Inr (hs', _) \<Rightarrow>
                    repair_loop rest hs' (fx + 1)
                      (ms @ [Repaired (oid ord) nm (order.qty ord) (order.price ord)])
                | Inl e \<Rightarrow>
                    repair_loop rest hs fx (ms @ [Repair_error (oid ord) nm e]))))"

text \<open>
  \<^verbatim>\<open>OrdersModel.find({ status: "executed", mode: { $regex: /^buy$/i } })\<close>: the mode is
  \<^verbatim>\<open>buy\<close> in any letter case.
\<close>

definition executedBuyOrders :: "order list \<Rightarrow> order list" where
  "executedBuyOrders os =
     filter (\<lambda>ord. status ord = ''executed'' \<and> toLowerCase (mode ord) = ''buy'') os"

definition repair_holdings :: "state \<Rightarrow> state \<times> repair_response" where
  "repair_holdings st =
     (let found = executedBuyOrders (orders st);
          (hs, result) = repair_loop found (holdings st) 0 []
      in (st\<lparr>holdings := hs\<rparr>,
          case result of
            None \<Rightarrow> Failed_to_repair_holdings
          | Some (fx, ms) \<Rightarrow> Repair_complete fx ms (length found)))"

subsection \<open>The specification's notions\<close>

text \<open>
  The Position of the specification is the pair (quantity, averageCost) of the holding that
  \<open>findOne\<close> returns for an instrument.
\<close>

definition position_of :: "holding list \<Rightarrow> string \<Rightarrow> (rat \<times> number) option" where
  "position_of hs n = map_option (\<lambda>h. (qty h, avg h)) (findOne hs n)"

text \<open>
  Written from the specification's words, for comparison with \<open>repair_holdings\<close>: the
  executed-order history of one instrument in creation order, and the incremental fold of
  the aggregator over an order sequence (an order whose update throws has no effect).
\<close>

definition spec_history :: "order list \<Rightarrow> string \<Rightarrow> order list" where
  "spec_history os n =
     filter (\<lambda>ord. status ord = ''executed''
                \<and> map_option toUpperCase (order.name ord) = Some n) os"

fun spec_replay :: "holding list \<Rightarrow> order list \<Rightarrow> holding list" where
  "spec_replay hs [] = hs"
| "spec_replay hs (ord # rest) =
     (case updateHoldingsFor hs ord of
        Inr (hs', _) \<Rightarrow> spec_replay hs' rest
      | Inl _ \<Rightarrow> spec_replay hs rest)"

text \<open>
  An order of the specification's data model: an instrument, a positive quantity, a price
  that is not zero, and a side that is BUY or SELL.
\<close>

definition valid_order :: "order \<Rightarrow> bool" where
  "valid_order ord \<longleftrightarrow>
     order.name ord \<noteq> None \<and> order.name ord \<noteq> Some [] \<and> 0 < order.qty ord
     \<and> order.price ord \<noteq> 0
     \<and> (toLowerCase (mode ord) = ''buy'' \<or> toLowerCase (mode ord) = ''sell'')"

text \<open>
  A position of the specification's data model: a quantity that is not negative and a
  finite average cost.
\<close>

definition sound_holding :: "holding \<Rightarrow> bool" where
  "sound_holding h \<longleftrightarrow> 0 \<le> qty h \<and> avg h \<noteq> PosInf \<and> avg h \<noteq> NegInf \<and> avg h \<noteq> NaN"

text \<open>The parameter check of \<^verbatim>\<open>updateHoldings\<close>, for an order whose mode is known.\<close>

definition valid_buy :: "order \<Rightarrow> bool" where
  "valid_buy ord \<longleftrightarrow>
     order.name ord \<noteq> None \<and> order.name ord \<noteq> Some [] \<and> order.qty ord \<noteq> 0
     \<and> order.price ord \<noteq> 0"

text \<open>
  An order that the repair loop passes without a holding for the instrument \<open>n\<close>: it has a
  name, and it is not an order of \<open>n\<close> that passes the parameter check.
\<close>

definition passed_for :: "string \<Rightarrow> order \<Rightarrow> bool" where
  "passed_for n ord \<longleftrightarrow>
     (case order.name ord of
        None \<Rightarrow> False
      | Some nm \<Rightarrow> \<not> (toUpperCase nm = n \<and> valid_buy ord))"

text \<open>
  An order that the repair loop passes without writing: it has a name, and a holding of
  that name exists or the order fails the parameter check.
\<close>

definition settled :: "holding list \<Rightarrow> order \<Rightarrow> bool" where
  "settled hs ord \<longleftrightarrow>
     (case order.name ord of
        None \<Rightarrow> False
      | Some nm \<Rightarrow> findOne hs (toUpperCase nm) \<noteq> None \<or> \<not> valid_buy ord)"

text \<open>The document that the BUY branch of \<^verbatim>\<open>updateHoldings\<close> creates for a new stock.\<close>

definition created_from :: "string \<Rightarrow> order \<Rightarrow> holding" where
  "created_from nm ord = \<lparr>holding.name = toUpperCase nm, qty = order.qty ord,
      avg = Num (order.price ord), price = order.price ord, net = ''0%'', day = ''0%''\<rparr>"

subsection \<open>Example documents\<close>

definition tcs_10_at_100 :: holding where
  "tcs_10_at_100 = \<lparr>holding.name = ''TCS'', qty = 10, avg = Num 100, price = 100,
      net = ''0%'', day = ''0%''\<rparr>"

definition infy_10_at_50 :: holding where
  "infy_10_at_50 = \<lparr>holding.name = ''INFY'', qty = 10, avg = Num 50, price = 50,
      net = ''0%'', day = ''0%''\<rparr>"

text \<open>A voice order for 10 INFY at 50, with a given mode and status.\<close>

definition infy_order :: "string \<Rightarrow> string \<Rightarrow> order" where
  "infy_order m s = \<lparr>oid = 1, order.name = Some ''INFY'', order.qty = 10, order.price = 50,
      mode = m, is_voice_order = True, is_simulated = False, status = s\<rparr>"

text \<open>A manual order for 10 TCS at 100, with a given mode.\<close>

definition manual_tcs :: "string \<Rightarrow> order" where
  "manual_tcs m = \<lparr>oid = 1, order.name = Some ''TCS'', order.qty = 10, order.price = 100,
      mode = m, is_voice_order = False, is_simulated = False, status = ''executed''\<rparr>"

definition tcs_buy :: "nat \<Rightarrow> rat \<Rightarrow> rat \<Rightarrow> order" where
  "tcs_buy i q p = \<lparr>oid = i, order.name = Some ''TCS'', order.qty = q, order.price = p,
      mode = ''buy'', is_voice_order = False, is_simulated = False, status = ''executed''\<rparr>"

text \<open>Two executed BUY orders for TCS (10 at 100, then 5 at 120) and no holding.\<close>

definition two_buys :: state where
  "two_buys = \<lparr>orders = [tcs_buy 1 10 100, tcs_buy 2 5 120], holdings = []\<rparr>"

text \<open>
  The manual BUY of one share at 1 that \<^verbatim>\<open>POST /newOrder\<close> saves for a request body
  without a name, and the store that holds it.
\<close>

definition nameless_buy :: order where
  "nameless_buy = \<lparr>oid = 1, order.name = None, order.qty = 1, order.price = 1,
      mode = ''buy'', is_voice_order = False, is_simulated = False, status = ''executed''\<rparr>"

definition nameless_store :: state where
  "nameless_store = \<lparr>orders = [nameless_buy], holdings = []\<rparr>"

section \<open>Properties\<close>

subsection \<open>Strings and collections\<close>

lemma tcs_upper: "toUpperCase ''TCS'' = ''TCS''"
  by code_simp

lemma infy_upper: "toUpperCase ''INFY'' = ''INFY''"
  by code_simp

lemma buy_lower: "toLowerCase ''buy'' = ''buy''"
  by code_simp

lemma sell_lower: "toLowerCase ''sell'' = ''sell''"
  by code_simp

lemma hold_lower: "toLowerCase ''hold'' = ''hold''"
  by code_simp

lemmas case_facts = tcs_upper infy_upper buy_lower sell_lower hold_lower

lemma toLowerCase_nonempty: "toLowerCase m = c # cs \<Longrightarrow> m \<noteq> []"
  by (auto simp: toLowerCase_def)

lemma find_replaceFirst:
  "find P xs = Some x \<Longrightarrow> P y \<Longrightarrow> find P (replaceFirst P y xs) = Some y"
  by (induction xs) (auto split: if_splits)

lemma replaceFirst_same: "find P xs = Some x \<Longrightarrow> replaceFirst P x xs = xs"
  by (induction xs) (auto split: if_splits)

lemma find_snoc:
  "find P (xs @ [y]) =
     (case find P xs of None \<Rightarrow> (if P y then Some y else None) | Some x \<Rightarrow> Some x)"
  by (induction xs) auto

lemma findOne_name: "findOne hs n = Some h \<Longrightarrow> holding.name h = n"
  by (auto simp: findOne_def find_Some_iff)

lemma findOne_saveHolding:
  "findOne hs n = Some h \<Longrightarrow> holding.name h' = n \<Longrightarrow> findOne (saveHolding n h' hs) n = Some h'"
  unfolding findOne_def saveHolding_def by (rule find_replaceFirst)

lemma findOne_append_new:
  "findOne hs n = None \<Longrightarrow> holding.name h = n \<Longrightarrow> findOne (hs @ [h]) n = Some h"
  by (simp add: findOne_def find_snoc)

lemma findOne_snoc_keep:
  "findOne hs n = Some h \<Longrightarrow> findOne (hs @ [h']) n = Some h"
  by (simp add: findOne_def find_snoc)

lemma findOne_snoc_other:
  "findOne hs n = None \<Longrightarrow> holding.name h' \<noteq> n \<Longrightarrow> findOne (hs @ [h']) n = None"
  by (simp add: findOne_def find_snoc)

lemma findOne_snoc_created:
  "findOne hs (toUpperCase nm) = None \<Longrightarrow>
     findOne (hs @ [created_from nm ord]) (toUpperCase nm) = Some (created_from nm ord)"
  by (simp add: findOne_def find_snoc created_from_def)

lemma findOne_tcs: "findOne [tcs_10_at_100] ''TCS'' = Some tcs_10_at_100"
  by (simp add: findOne_def tcs_10_at_100_def)

lemma findById_oid: "findById os i = Some ord \<Longrightarrow> oid ord = i"
  by (auto simp: findById_def find_Some_iff)

lemma findById_saveOrder:
  "findById os i = Some ord \<Longrightarrow> oid ord' = i \<Longrightarrow> findById (saveOrder ord' os) i = Some ord'"
  unfolding findById_def saveOrder_def by (auto intro: find_replaceFirst)

lemma saveOrder_same: "findById os i = Some ord \<Longrightarrow> saveOrder ord os = os"
  unfolding findById_def saveOrder_def
  by (frule find_Some_iff[THEN iffD1]) (auto intro: replaceFirst_same)

subsection \<open>\<^verbatim>\<open>updateHoldings\<close>\<close>

text \<open>
  Both BUY branches return the written holding, stored under the upper-cased name, with
  its \<open>price\<close> set to the order's price.
\<close>

lemma updateHoldings_buy_price:
  assumes "toLowerCase m = ''buy''" and "updateHoldings hs n q p m = Inr (hs', r)"
  shows "\<exists>nm h. n = Some nm \<and> r = Some h \<and> price h = p \<and> holding.name h = toUpperCase nm
           \<and> findOne hs' (toUpperCase nm) = Some h"
proof (cases n)
  case None
  with assms(2) show ?thesis by (simp add: updateHoldings_def)
next
  case (Some nm)
  show ?thesis
  proof (cases "findOne hs (toUpperCase nm)")
    case None
    with assms Some show ?thesis
      by (auto simp: updateHoldings_def Let_def findOne_append_new split: if_splits)
  next
    case (Some h)
    with assms \<open>n = Some nm\<close> findOne_name[OF Some] show ?thesis
      by (auto simp: updateHoldings_def Let_def findOne_saveHolding[where h = h]
            split: if_splits)
  qed
qed

lemma updateHoldingsFor_buy_exists:
  "toLowerCase (mode ord) = ''buy'' \<Longrightarrow> updateHoldingsFor hs ord = Inr (hs', r) \<Longrightarrow>
     \<exists>nm. order.name ord = Some nm \<and> findOne hs' (toUpperCase nm) \<noteq> None"
  unfolding updateHoldingsFor_def by (drule (1) updateHoldings_buy_price) auto

lemma valid_order_updates:
  assumes "valid_order ord" and "order.name ord = Some nm"
    and "\<forall>h. findOne hs (toUpperCase nm) = Some h \<longrightarrow> sound_holding h"
  shows "\<exists>hs' r. updateHoldingsFor hs ord = Inr (hs', r)"
proof -
  from assms(1) have m: "mode ord \<noteq> []"
    by (auto simp: valid_order_def dest: toLowerCase_nonempty)
  from assms(1,2) have v: "nm \<noteq> []" "0 < order.qty ord" "order.price ord \<noteq> 0"
    by (auto simp: valid_order_def)
  show ?thesis
  proof (cases "findOne hs (toUpperCase nm)")
    case None
    with assms(1,2) m v show ?thesis
      by (auto simp: updateHoldingsFor_def updateHoldings_def valid_order_def Let_def)
  next
    case (Some h)
    with assms(3) have s: "sound_holding h" by simp
    then obtain a where a: "avg h = Num a" by (cases "avg h") (auto simp: sound_holding_def)
    from s v(2) have t: "qty h + order.qty ord \<noteq> 0" by (simp add: sound_holding_def)
    from assms(1,2) m v Some a t show ?thesis
      by (auto simp: updateHoldingsFor_def updateHoldings_def valid_order_def Let_def)
  qed
qed

lemma updateHoldingsFor_missing_buy:
  assumes "toLowerCase (mode ord) = ''buy''" and "order.name ord = Some nm"
    and "findOne hs (toUpperCase nm) = None"
  shows "updateHoldingsFor hs ord =
           (if valid_buy ord
            then Inr (hs @ [created_from nm ord], Some (created_from nm ord))
            else Inl Invalid_parameters)"
proof -
  from assms(1) have "mode ord \<noteq> []" by (auto simp: toLowerCase_def)
  with assms show ?thesis
    by (simp add: updateHoldingsFor_def updateHoldings_def valid_buy_def created_from_def Let_def)
qed

lemma upd_infy:
  "updateHoldings [] (Some ''INFY'') 10 50 ''buy'' = Inr ([infy_10_at_50], Some infy_10_at_50)"
  by (simp add: updateHoldings_def Let_def case_facts findOne_def infy_10_at_50_def)

text \<open>
  A BUY that brings the total quantity of an existing holding to zero: with a zero total
  cost the average is \<^verbatim>\<open>NaN\<close> and the save throws; otherwise an infinity is stored.
\<close>

lemma buy_to_zero_total_throws:
  "updateHoldings [tcs_10_at_100] (Some ''TCS'') (- 10) 100 ''buy'' = Inl Validation_error"
  by (simp add: updateHoldings_def Let_def tcs_upper buy_lower findOne_tcs)
     (simp add: tcs_10_at_100_def)

lemma buy_to_zero_total_stores_infinity:
  "updateHoldings [tcs_10_at_100] (Some ''TCS'') (- 10) 120 ''buy''
     = Inr ([tcs_10_at_100\<lparr>qty := 0, avg := NegInf, price := 120\<rparr>],
            Some (tcs_10_at_100\<lparr>qty := 0, avg := NegInf, price := 120\<rparr>))"
  by (simp add: updateHoldings_def Let_def tcs_upper buy_lower findOne_tcs)
     (simp add: tcs_10_at_100_def saveHolding_def)

text \<open>
  C1. An executed BUY order (name, quantity and price accepted by the parameter check,
  mode \<^verbatim>\<open>buy\<close> in any letter case): when a holding of the instrument exists with
  quantity \<open>qty h\<close> and a finite average \<open>a\<close>, and the new total quantity is not zero, the
  holding found afterwards has quantity \<open>qty h + q\<close> and average
  \<open>(qty h * a + q * p) / (qty h + q)\<close>; when none exists, the holding found afterwards
  has quantity \<open>q\<close> and average \<open>p\<close>.
\<close>

theorem updateHoldings_buy:
  assumes "nm \<noteq> []" and "q \<noteq> 0" and "p \<noteq> 0" and "toLowerCase m = ''buy''"
  shows "(\<forall>h a. findOne hs (toUpperCase nm) = Some h \<and> avg h = Num a \<and> qty h + q \<noteq> 0 \<longrightarrow>
            (\<exists>hs' h'. updateHoldings hs (Some nm) q p m = Inr (hs', Some h')
               \<and> findOne hs' (toUpperCase nm) = Some h'
               \<and> qty h' = qty h + q
               \<and> avg h' = Num ((qty h * a + q * p) / (qty h + q))))
       \<and> (findOne hs (toUpperCase nm) = None \<longrightarrow>
            (\<exists>hs' h'. updateHoldings hs (Some nm) q p m = Inr (hs', Some h')
               \<and> findOne hs' (toUpperCase nm) = Some h'
               \<and> qty h' = q \<and> avg h' = Num p))"
proof -
  from assms(4) have m: "m \<noteq> []" by (auto simp: toLowerCase_def)
  show ?thesis
  proof (intro conjI allI impI)
    fix h a
    assume h: "findOne hs (toUpperCase nm) = Some h \<and> avg h = Num a \<and> qty h + q \<noteq> 0"
    let ?h' = "h\<lparr>qty := qty h + q, avg := Num ((a * qty h + p * q) / (qty h + q)),
                 price := p\<rparr>"
    have n: "holding.name ?h' = toUpperCase nm" using h by (auto dest: findOne_name)
    have "updateHoldings hs (Some nm) q p m
        = Inr (saveHolding (toUpperCase nm) ?h' hs, Some ?h')"
      using assms m h by (simp add: updateHoldings_def Let_def)
    moreover have "findOne (saveHolding (toUpperCase nm) ?h' hs) (toUpperCase nm) = Some ?h'"
      using h n by (intro findOne_saveHolding[where h = h]) auto
    moreover have "avg ?h' = Num ((qty h * a + q * p) / (qty h + q))"
      by (simp add: mult.commute)
    ultimately show "\<exists>hs' h'. updateHoldings hs (Some nm) q p m = Inr (hs', Some h')
               \<and> findOne hs' (toUpperCase nm) = Some h'
               \<and> qty h' = qty h + q
               \<and> avg h' = Num ((qty h * a + q * p) / (qty h + q))"
      by simp
  next
    assume h: "findOne hs (toUpperCase nm) = None"
    let ?h' = "\<lparr>holding.name = toUpperCase nm, qty = q, avg = Num p, price = p,
                 net = ''0%'', day = ''0%''\<rparr>"
    have "updateHoldings hs (Some nm) q p m = Inr (hs @ [?h'], Some ?h')"
      using assms m h by (simp add: updateHoldings_def Let_def)
    moreover have "findOne (hs @ [?h']) (toUpperCase nm) = Some ?h'"
      using h by (intro findOne_append_new) auto
    ultimately show "\<exists>hs' h'. updateHoldings hs (Some nm) q p m = Inr (hs', Some h')
               \<and> findOne hs' (toUpperCase nm) = Some h'
               \<and> qty h' = q \<and> avg h' = Num p"
      by simp
  qed
qed

text \<open>The specification's scenario: 10 TCS held at 100, BUY 5 at 120 gives 15 at 320/3.\<close>

theorem updateHoldings_buy_witness:
  "\<exists>hs' h'. updateHoldings [tcs_10_at_100] (Some ''TCS'') 5 120 ''buy'' = Inr (hs', Some h')
      \<and> findOne hs' ''TCS'' = Some h' \<and> qty h' = 15 \<and> avg h' = Num (320 / 3)"
  using updateHoldings_buy [of "''TCS''" 5 120 "''buy''" "[tcs_10_at_100]"]
  by (simp add: tcs_upper buy_lower findOne_tcs) (simp add: tcs_10_at_100_def)

text \<open>
  C2. The dashboard documents that selling more than is owned is refused twice, in the
  frontend and in the backend before the database update. \<^verbatim>\<open>updateHoldings\<close> has no
  such check: it subtracts, and deletes the holding when the result is not positive. A
  SELL of 15 TCS against a holding of 10 throws nothing and returns \<^verbatim>\<open>null\<close>, and
  afterwards the position (10, 100) is gone instead of unchanged.
\<close>

theorem oversell_deletes_holding:
  "position_of [tcs_10_at_100] ''TCS'' = Some (10, Num 100)
   \<and> updateHoldings [tcs_10_at_100] (Some ''TCS'') 15 130 ''sell'' = Inr ([], None)
   \<and> position_of [] ''TCS'' = None"
  by (simp add: updateHoldings_def Let_def tcs_upper sell_lower findOne_tcs position_of_def)
     (simp add: tcs_10_at_100_def deleteOne_def findOne_def)

text \<open>
  C9. The SELL branch that keeps a positive remaining quantity saves the holding without
  touching its \<open>price\<close>: selling 5 of 10 TCS at 130 writes a holding whose \<open>price\<close> is
  still 100, whereas both BUY branches store the order's price (\<open>updateHoldings_buy_price\<close>).
\<close>

theorem sell_keeps_old_price:
  "updateHoldings [tcs_10_at_100] (Some ''TCS'') 5 130 ''sell''
     = Inr ([tcs_10_at_100\<lparr>qty := 5\<rparr>], Some (tcs_10_at_100\<lparr>qty := 5\<rparr>))
   \<and> price (tcs_10_at_100\<lparr>qty := 5\<rparr>) = 100"
  by (simp add: updateHoldings_def Let_def tcs_upper sell_lower findOne_tcs)
     (simp add: tcs_10_at_100_def saveHolding_def)

subsection \<open>Placing, confirming and rejecting orders\<close>

text \<open>
  C7. \<^verbatim>\<open>POST /newOrder\<close> appends one order whose status depends on the two origin flags
  only: \<^verbatim>\<open>pending\<close> for a voice or assistant order, which leaves the holdings alone and
  answers that confirmation is needed, \<^verbatim>\<open>executed\<close> for a manual order, whose holdings
  update runs at once. When that update throws, the order stays in the collection with
  status \<^verbatim>\<open>executed\<close>, the holdings are unchanged and the answer is the partial-failure
  warning.
\<close>

theorem newOrder_status_by_origin:
  "(\<exists>ord. orders (fst (newOrder st nm q p m voice simulated)) = orders st @ [ord]
        \<and> order.name ord = nm \<and> order.qty ord = q \<and> order.price ord = p \<and> mode ord = m
        \<and> status ord = (if voice \<or> simulated then ''pending'' else ''executed'')
        \<and> (voice \<or> simulated \<longrightarrow>
              holdings (fst (newOrder st nm q p m voice simulated)) = holdings st
              \<and> snd (newOrder st nm q p m voice simulated) = Order_placed ord True)
        \<and> (\<not> voice \<and> \<not> simulated \<longrightarrow>
              (\<forall>hs' r. updateHoldings (holdings st) nm q p m = Inr (hs', r) \<longrightarrow>
                  holdings (fst (newOrder st nm q p m voice simulated)) = hs'
                  \<and> snd (newOrder st nm q p m voice simulated) = Order_placed ord False)
              \<and> (\<forall>e. updateHoldings (holdings st) nm q p m = Inl e \<longrightarrow>
                  holdings (fst (newOrder st nm q p m voice simulated)) = holdings st
                  \<and> snd (newOrder st nm q p m voice simulated) = Holdings_update_failed ord)))"
  by (auto simp: newOrder_def Let_def split: sum.splits)

text \<open>
  A manual order with the mode \<^verbatim>\<open>hold\<close> (the update throws), a manual BUY, and a voice
  BUY, each placed in the empty store.
\<close>

theorem newOrder_status_by_origin_witness:
  "newOrder \<lparr>orders = [], holdings = []\<rparr> (Some ''TCS'') 10 100 ''hold'' False False
     = (\<lparr>orders = [manual_tcs ''hold''], holdings = []\<rparr>,
        Holdings_update_failed (manual_tcs ''hold''))
   \<and> newOrder \<lparr>orders = [], holdings = []\<rparr> (Some ''TCS'') 10 100 ''buy'' False False
     = (\<lparr>orders = [manual_tcs ''buy''], holdings = [tcs_10_at_100]\<rparr>,
        Order_placed (manual_tcs ''buy'') False)
   \<and> newOrder \<lparr>orders = [], holdings = []\<rparr> (Some ''INFY'') 10 50 ''buy'' True False
     = (\<lparr>orders = [infy_order ''buy'' ''pending''], holdings = []\<rparr>,
        Order_placed (infy_order ''buy'' ''pending'') True)"
  using
    newOrder_status_by_origin
      [of "\<lparr>orders = [], holdings = []\<rparr>" "Some ''TCS''" 10 100 "''hold''" False False]
    newOrder_status_by_origin
      [of "\<lparr>orders = [], holdings = []\<rparr>" "Some ''TCS''" 10 100 "''buy''" False False]
    newOrder_status_by_origin
      [of "\<lparr>orders = [], holdings = []\<rparr>" "Some ''INFY''" 10 50 "''buy''" True False]
  by (simp add: newOrder_def Let_def fresh_id_def manual_tcs_def infy_order_def updateHoldings_def
        case_facts findOne_def tcs_10_at_100_def)

text \<open>
  C5. For a pending order of the specification's data model (an instrument, a positive
  quantity, a price that is not zero, BUY or SELL), in a store whose holding of the
  instrument, if there is one, has a quantity that is not negative and a finite average:
  the first confirmation runs the holdings update once, stores the order as \<^verbatim>\<open>executed\<close>
  and answers with it; a second confirmation of the same order answers that the order is
  already executed and changes neither collection.
\<close>

theorem confirm_twice:
  assumes "findById (orders st) i = Some ord" and "status ord = ''pending''"
    and "valid_order ord" and "order.name ord = Some nm"
    and "\<forall>h. findOne (holdings st) (toUpperCase nm) = Some h \<longrightarrow> sound_holding h"
  shows "\<exists>hs' r. updateHoldingsFor (holdings st) ord = Inr (hs', r)
           \<and> confirm st i = (\<lparr>orders = saveOrder (ord\<lparr>status := ''executed''\<rparr>) (orders st),
                                holdings = hs'\<rparr>,
                              Order_confirmed (ord\<lparr>status := ''executed''\<rparr>))
           \<and> findById (orders (fst (confirm st i))) i = Some (ord\<lparr>status := ''executed''\<rparr>)
           \<and> confirm (fst (confirm st i)) i = (fst (confirm st i), Order_already_executed)"
proof -
  from valid_order_updates[OF assms(3,4,5)] obtain hs' r
    where u: "updateHoldingsFor (holdings st) ord = Inr (hs', r)" by blast
  have v: "toLowerCase (mode ord) = ''buy'' \<Longrightarrow> findOne hs' (toUpperCase nm) \<noteq> None"
    using updateHoldingsFor_buy_exists[OF _ u] assms(4) by auto
  let ?ex = "ord\<lparr>status := ''executed''\<rparr>"
  let ?st1 = "\<lparr>orders = saveOrder ?ex (orders st), holdings = hs'\<rparr>"
  have c1: "confirm st i = (?st1, Order_confirmed ?ex)"
    using assms(1,2,4) u v by (auto simp: confirm_def executeOrder_def Let_def)
  have f: "findById (orders ?st1) i = Some ?ex"
    using assms(1) by (simp add: findById_saveOrder findById_oid)
  have c2: "confirm ?st1 i = (?st1, Order_already_executed)"
    using f by (simp add: confirm_def)
  show ?thesis using u c1 f c2 by simp
qed

text \<open>
  A pending voice BUY of 10 INFY at 50, confirmed twice in a store that already holds
  10 INFY at 50.
\<close>

theorem confirm_twice_witness:
  "confirm \<lparr>orders = [infy_order ''buy'' ''pending''], holdings = [infy_10_at_50]\<rparr> 1
     = (\<lparr>orders = [infy_order ''buy'' ''executed''],
          holdings = [infy_10_at_50\<lparr>qty := 20\<rparr>]\<rparr>,
        Order_confirmed (infy_order ''buy'' ''executed''))
   \<and> confirm \<lparr>orders = [infy_order ''buy'' ''executed''],
          holdings = [infy_10_at_50\<lparr>qty := 20\<rparr>]\<rparr> 1
     = (\<lparr>orders = [infy_order ''buy'' ''executed''],
          holdings = [infy_10_at_50\<lparr>qty := 20\<rparr>]\<rparr>,
        Order_already_executed)"
  using confirm_twice
    [of "\<lparr>orders = [infy_order ''buy'' ''pending''], holdings = [infy_10_at_50]\<rparr>" 1
      "infy_order ''buy'' ''pending''" "''INFY''"]
  by (auto simp: findById_def infy_order_def valid_order_def sound_holding_def case_facts
        updateHoldingsFor_def updateHoldings_def saveOrder_def findOne_def saveHolding_def
        infy_10_at_50_def Let_def)

text \<open>
  C6. When the holdings update of a confirmation throws, the answer is the failure and
  neither collection changes, so the order keeps its status. Whenever a confirmation turns
  an order that was not executed into an executed one, the holdings update succeeded and
  its result is the new holdings collection: an executed order without its position effect
  does not arise from a confirmation.
\<close>

theorem confirm_failure_atomic:
  "(\<forall>ord e. findById (orders st) i = Some ord \<and> status ord \<noteq> ''executed''
        \<and> updateHoldingsFor (holdings st) ord = Inl e
        \<longrightarrow> confirm st i = (st, Failed_to_update_holdings e ord))
   \<and> (\<forall>ord ord'. findById (orders st) i = Some ord \<and> status ord \<noteq> ''executed''
        \<and> findById (orders (fst (confirm st i))) i = Some ord' \<and> status ord' = ''executed''
        \<longrightarrow> (\<exists>hs' r. updateHoldingsFor (holdings st) ord = Inr (hs', r)
               \<and> holdings (fst (confirm st i)) = hs'))"
  by (auto simp: confirm_def executeOrder_def Let_def split: sum.splits if_splits option.splits)

theorem confirm_failure_atomic_witness:
  "confirm \<lparr>orders = [infy_order ''hold'' ''pending''], holdings = []\<rparr> 1
     = (\<lparr>orders = [infy_order ''hold'' ''pending''], holdings = []\<rparr>,
        Failed_to_update_holdings Invalid_mode (infy_order ''hold'' ''pending''))
   \<and> holdings (fst (confirm \<lparr>orders = [infy_order ''buy'' ''pending''], holdings = []\<rparr> 1))
     = [infy_10_at_50]"
  using
    confirm_failure_atomic [of "\<lparr>orders = [infy_order ''hold'' ''pending''], holdings = []\<rparr>" 1]
    confirm_failure_atomic [of "\<lparr>orders = [infy_order ''buy'' ''pending''], holdings = []\<rparr>" 1]
  by (simp add: confirm_def executeOrder_def findById_def infy_order_def case_facts
        updateHoldingsFor_def updateHoldings_def upd_infy saveOrder_def findOne_def
        infy_10_at_50_def Let_def)

text \<open>
  C10. Rejecting an order whose status is already \<^verbatim>\<open>rejected\<close> succeeds, answers with the
  order, still \<^verbatim>\<open>rejected\<close>, and changes neither collection; the answer is the
  already-executed refusal exactly when the order exists with status \<^verbatim>\<open>executed\<close>.
\<close>

theorem reject_rejected:
  "(\<forall>ord. findById (orders st) i = Some ord \<and> status ord = ''rejected''
        \<longrightarrow> reject st i = (st, Order_rejected ord))
   \<and> (snd (reject st i) = Cannot_reject_executed
        \<longleftrightarrow> (\<exists>ord. findById (orders st) i = Some ord \<and> status ord = ''executed''))"
proof (intro conjI allI impI)
  fix ord assume a: "findById (orders st) i = Some ord \<and> status ord = ''rejected''"
  then have same: "ord\<lparr>status := ''rejected''\<rparr> = ord" by (cases ord) auto
  have "saveOrder ord (orders st) = orders st" using a by (auto intro: saveOrder_same)
  then have st: "st\<lparr>orders := saveOrder ord (orders st)\<rparr> = st" by simp
  have "reject st i = (st\<lparr>orders := saveOrder (ord\<lparr>status := ''rejected''\<rparr>) (orders st)\<rparr>,
                       Order_rejected (ord\<lparr>status := ''rejected''\<rparr>))"
    using a by (simp add: reject_def Let_def)
  then show "reject st i = (st, Order_rejected ord)"
    by (simp only: same st)
next
  show "snd (reject st i) = Cannot_reject_executed
        \<longleftrightarrow> (\<exists>ord. findById (orders st) i = Some ord \<and> status ord = ''executed'')"
    by (auto simp: reject_def Let_def split: option.splits)
qed

theorem reject_rejected_witness:
  "reject \<lparr>orders = [infy_order ''buy'' ''rejected''], holdings = [tcs_10_at_100]\<rparr> 1
     = (\<lparr>orders = [infy_order ''buy'' ''rejected''], holdings = [tcs_10_at_100]\<rparr>,
        Order_rejected (infy_order ''buy'' ''rejected''))
   \<and> snd (reject \<lparr>orders = [infy_order ''buy'' ''executed''], holdings = []\<rparr> 1)
     = Cannot_reject_executed"
  using
    reject_rejected
      [of "\<lparr>orders = [infy_order ''buy'' ''rejected''], holdings = [tcs_10_at_100]\<rparr>" 1]
    reject_rejected [of "\<lparr>orders = [infy_order ''buy'' ''executed''], holdings = []\<rparr>" 1]
  by (simp add: findById_def infy_order_def)

text \<open>
  C4. The confirmation handler refuses only the status \<^verbatim>\<open>executed\<close>. A pending voice
  order that is rejected and then confirmed goes from \<^verbatim>\<open>rejected\<close> to \<^verbatim>\<open>executed\<close>, and
  its BUY is applied to the holdings: \<^verbatim>\<open>rejected\<close> is not terminal.
\<close>

theorem confirm_executes_rejected_order:
  "reject \<lparr>orders = [infy_order ''buy'' ''pending''], holdings = []\<rparr> 1
     = (\<lparr>orders = [infy_order ''buy'' ''rejected''], holdings = []\<rparr>,
        Order_rejected (infy_order ''buy'' ''rejected''))
   \<and> confirm \<lparr>orders = [infy_order ''buy'' ''rejected''], holdings = []\<rparr> 1
     = (\<lparr>orders = [infy_order ''buy'' ''executed''], holdings = [infy_10_at_50]\<rparr>,
        Order_confirmed (infy_order ''buy'' ''executed''))"
  by (simp add: reject_def confirm_def executeOrder_def findById_def infy_order_def case_facts
        updateHoldingsFor_def upd_infy saveOrder_def Let_def)
     (simp add: findOne_def infy_10_at_50_def)

subsection \<open>\<^verbatim>\<open>GET /repair-holdings\<close>\<close>

text \<open>
  The loop only ever appends holdings for names that have none: a holding that exists
  stays the one that \<open>findOne\<close> returns, also when the loop ends early.
\<close>

lemma repair_loop_keeps:
  assumes "\<forall>ord\<in>set os. toLowerCase (mode ord) = ''buy''" and "findOne hs n = Some h"
  shows "findOne (fst (repair_loop os hs fx ms)) n = Some h"
  using assms
proof (induction os arbitrary: hs fx ms)
  case Nil
  then show ?case by simp
next
  case (Cons ord rest)
  then have buy: "toLowerCase (mode ord) = ''buy''"
    and rest: "\<forall>x\<in>set rest. toLowerCase (mode x) = ''buy''" by auto
  show ?case
  proof (cases "order.name ord")
    case None
    then show ?thesis using Cons.prems(2) by simp
  next
    case (Some nm)
    show ?thesis
    proof (cases "findOne hs (toUpperCase nm)")
      case found: (Some a)
      then show ?thesis using Some Cons.IH[OF rest Cons.prems(2)] by simp
    next
      case None
      show ?thesis
      proof (cases "valid_buy ord")
        case True
        have "findOne (hs @ [created_from nm ord]) n = Some h"
          using Cons.prems(2) by (rule findOne_snoc_keep)
        from Cons.IH[OF rest this] show ?thesis
          using Some None True by (simp add: updateHoldingsFor_missing_buy[OF buy Some None])
      next
        case False
        then show ?thesis
          using Some None Cons.IH[OF rest Cons.prems(2)]
          by (simp add: updateHoldingsFor_missing_buy[OF buy Some None])
      qed
    qed
  qed
qed

text \<open>
  For an instrument without a holding, the loop creates the holding from the first order
  of the instrument that passes the parameter check, provided that every order before it
  has a name; whatever follows that order does not change the holding.
\<close>

lemma repair_loop_first:
  assumes "\<forall>x\<in>set (pre @ ord # post). toLowerCase (mode x) = ''buy''"
    and "findOne hs n = None"
    and "\<forall>x\<in>set pre. passed_for n x"
    and "order.name ord = Some nm" and "toUpperCase nm = n" and "valid_buy ord"
  shows "findOne (fst (repair_loop (pre @ ord # post) hs fx ms)) n = Some (created_from nm ord)"
  using assms(1,2,3)
proof (induction pre arbitrary: hs fx ms)
  case Nil
  then have buy: "toLowerCase (mode ord) = ''buy''"
    and rest: "\<forall>x\<in>set post. toLowerCase (mode x) = ''buy''" by auto
  from Nil.prems(2) assms(5) have none: "findOne hs (toUpperCase nm) = None" by simp
  let ?hs = "hs @ [created_from nm ord]"
  have "findOne ?hs (toUpperCase nm) = Some (created_from nm ord)"
    using none by (rule findOne_snoc_created)
  with rest have "findOne (fst (repair_loop post ?hs (fx + 1)
      (ms @ [Repaired (oid ord) nm (order.qty ord) (order.price ord)]))) (toUpperCase nm)
        = Some (created_from nm ord)"
    by (rule repair_loop_keeps)
  then show ?case
    using assms(4,5,6) none by (simp add: updateHoldingsFor_missing_buy[OF buy assms(4) none])
next
  case (Cons x pre)
  then have buy: "toLowerCase (mode x) = ''buy''"
    and rest: "\<forall>y\<in>set (pre @ ord # post). toLowerCase (mode y) = ''buy''"
    and pre: "\<forall>y\<in>set pre. passed_for n y" by auto
  from Cons.prems(3) obtain xn where xn: "order.name x = Some xn"
    and other: "\<not> (toUpperCase xn = n \<and> valid_buy x)"
    by (auto simp: passed_for_def split: option.splits)
  show ?case
  proof (cases "findOne hs (toUpperCase xn)")
    case (Some a)
    then show ?thesis using xn Cons.IH[OF rest Cons.prems(2) pre] by simp
  next
    case None
    show ?thesis
    proof (cases "valid_buy x")
      case True
      with other have "holding.name (created_from xn x) \<noteq> n" by (simp add: created_from_def)
      with Cons.prems(2) have "findOne (hs @ [created_from xn x]) n = None"
        by (rule findOne_snoc_other)
      from Cons.IH[OF rest this pre] show ?thesis
        using xn None True by (simp add: updateHoldingsFor_missing_buy[OF buy xn None])
    next
      case False
      then show ?thesis
        using xn None Cons.IH[OF rest Cons.prems(2) pre]
        by (simp add: updateHoldingsFor_missing_buy[OF buy xn None])
    qed
  qed
qed

lemma executedBuyOrders_buy: "\<forall>ord\<in>set (executedBuyOrders os). toLowerCase (mode ord) = ''buy''"
  by (simp add: executedBuyOrders_def)

lemma repair_holdings_fst:
  "fst (repair_holdings st) =
     st\<lparr>holdings := fst (repair_loop (executedBuyOrders (orders st)) (holdings st) 0 [])\<rparr>"
  by (simp add: repair_holdings_def Let_def split: prod.splits)

lemma two_buys_found:
  "executedBuyOrders (orders two_buys) = [tcs_buy 1 10 100, tcs_buy 2 5 120]"
  by (simp add: executedBuyOrders_def two_buys_def tcs_buy_def case_facts)

text \<open>
  C3, as the specification states it, fails: with two executed BUY orders for TCS (10 at
  100, then 5 at 120) and no holding, the repair rebuilds the position (10, 100), whereas
  the fold of the same history from the empty state gives (15, 320/3).
\<close>

theorem repair_is_not_replay_counterexample:
  "position_of (holdings (fst (repair_holdings two_buys))) ''TCS'' = Some (10, Num 100)
   \<and> position_of (spec_replay [] (spec_history (orders two_buys) ''TCS'')) ''TCS''
       = Some (15, Num (320 / 3))
   \<and> position_of (holdings (fst (repair_holdings two_buys))) ''TCS''
       \<noteq> position_of (spec_replay [] (spec_history (orders two_buys) ''TCS'')) ''TCS''"
proof -
  have h: "spec_history (orders two_buys) ''TCS'' = [tcs_buy 1 10 100, tcs_buy 2 5 120]"
    by (simp add: spec_history_def two_buys_def tcs_buy_def case_facts)
  have r: "holdings (fst (repair_holdings two_buys)) = [tcs_10_at_100]"
    by (simp add: repair_holdings_fst two_buys_found)
       (simp add: two_buys_def tcs_buy_def findOne_def updateHoldingsFor_def updateHoldings_def
          Let_def case_facts tcs_10_at_100_def)
  have s: "spec_replay [] [tcs_buy 1 10 100, tcs_buy 2 5 120]
      = [\<lparr>holding.name = ''TCS'', qty = 15, avg = Num (320 / 3), price = 120,
           net = ''0%'', day = ''0%''\<rparr>]"
    by (simp add: tcs_buy_def findOne_def updateHoldingsFor_def updateHoldings_def
          Let_def case_facts saveHolding_def)
  show ?thesis
    unfolding h r s by (simp add: position_of_def findOne_def tcs_10_at_100_def)
qed

text \<open>
  C3, amended. For an instrument whose holding is missing: when \<open>ord\<close> is the first
  executed BUY order of the instrument that passes the parameter check, and every executed
  BUY order listed before it has a name, the repair rebuilds the position from \<open>ord\<close>
  alone, whatever orders follow it: the quantity is that order's quantity and the average
  cost is that order's price, which is the fold of that single order from the empty state.
\<close>

theorem repair_holdings_first_buy_only:
  assumes "findOne (holdings st) n = None"
    and "executedBuyOrders (orders st) = pre @ ord # post"
    and "\<forall>x\<in>set pre. passed_for n x"
    and "order.name ord = Some nm" and "toUpperCase nm = n" and "valid_buy ord"
  shows "position_of (holdings (fst (repair_holdings st))) n
           = Some (order.qty ord, Num (order.price ord))
       \<and> position_of (holdings (fst (repair_holdings st))) n
           = position_of (spec_replay [] [ord]) n"
proof -
  have all: "\<forall>x\<in>set (pre @ ord # post). toLowerCase (mode x) = ''buy''"
    using executedBuyOrders_buy[of "orders st"] assms(2) by simp
  then have buy: "toLowerCase (mode ord) = ''buy''" by simp
  have "findOne (holdings (fst (repair_holdings st))) n = Some (created_from nm ord)"
    using repair_loop_first[OF all assms(1,3,4,5,6)] by (simp add: repair_holdings_fst assms(2))
  then have a: "position_of (holdings (fst (repair_holdings st))) n
      = Some (order.qty ord, Num (order.price ord))"
    by (simp add: position_of_def created_from_def)
  have "findOne [] (toUpperCase nm) = None" by (simp add: findOne_def)
  from updateHoldingsFor_missing_buy[OF buy assms(4) this]
  have "spec_replay [] [ord] = [created_from nm ord]" using assms(6) by simp
  then have "position_of (spec_replay [] [ord]) n = Some (order.qty ord, Num (order.price ord))"
    using assms(5) by (simp add: position_of_def findOne_def created_from_def)
  with a show ?thesis by simp
qed

text \<open>
  An executed BUY of INFY, which has its holding, is listed before the two BUY orders of
  TCS, which has none.
\<close>

theorem repair_holdings_first_buy_only_witness:
  "position_of (holdings (fst (repair_holdings
       \<lparr>orders = [infy_order ''buy'' ''executed'', tcs_buy 2 10 100, tcs_buy 3 5 120],
         holdings = [infy_10_at_50]\<rparr>))) ''TCS'' = Some (10, Num 100)"
  using repair_holdings_first_buy_only
    [of "\<lparr>orders = [infy_order ''buy'' ''executed'', tcs_buy 2 10 100, tcs_buy 3 5 120],
           holdings = [infy_10_at_50]\<rparr>" "''TCS''" "[infy_order ''buy'' ''executed'']"
        "tcs_buy 2 10 100" "[tcs_buy 3 5 120]" "''TCS''"]
  by (simp add: executedBuyOrders_def tcs_buy_def infy_order_def findOne_def valid_buy_def
        passed_for_def infy_10_at_50_def case_facts)

text \<open>
  When every executed BUY order has a name, the loop runs to its end, after it every order
  it visited is settled, and on a collection where every order is settled the loop writes
  nothing: a second run of the repair then reports \<open>fixed = 0\<close> and changes nothing.
\<close>

lemma updateHoldingsFor_invalid:
  "\<not> valid_buy ord \<Longrightarrow> updateHoldingsFor hs ord = Inl Invalid_parameters"
  by (auto simp: updateHoldingsFor_def updateHoldings_def valid_buy_def split: option.splits)

lemma repair_loop_covers:
  assumes "\<forall>ord\<in>set os. toLowerCase (mode ord) = ''buy''"
    and "\<forall>ord\<in>set os. order.name ord \<noteq> None"
  shows "\<forall>ord\<in>set os. settled (fst (repair_loop os hs fx ms)) ord"
  using assms
proof (induction os arbitrary: hs fx ms)
  case Nil
  then show ?case by simp
next
  case (Cons ord rest)
  then have buy: "toLowerCase (mode ord) = ''buy''"
    and rest: "\<forall>x\<in>set rest. toLowerCase (mode x) = ''buy''"
    and named: "\<forall>x\<in>set rest. order.name x \<noteq> None" by auto
  from Cons.prems(2) obtain nm where nm: "order.name ord = Some nm" by auto
  show ?case
  proof (cases "findOne hs (toUpperCase nm)")
    case (Some a)
    have "findOne (fst (repair_loop rest hs fx ms)) (toUpperCase nm) = Some a"
      using rest Some by (rule repair_loop_keeps)
    then show ?thesis
      using nm Some Cons.IH[OF rest named, of hs fx ms] by (simp add: settled_def)
  next
    case None
    show ?thesis
    proof (cases "valid_buy ord")
      case True
      let ?hs = "hs @ [created_from nm ord]"
      let ?ms = "ms @ [Repaired (oid ord) nm (order.qty ord) (order.price ord)]"
      have "findOne ?hs (toUpperCase nm) = Some (created_from nm ord)"
        using None by (rule findOne_snoc_created)
      with rest have "findOne (fst (repair_loop rest ?hs (fx + 1) ?ms)) (toUpperCase nm)
          = Some (created_from nm ord)"
        by (rule repair_loop_keeps)
      then show ?thesis
        using nm None True Cons.IH[OF rest named, of ?hs "fx + 1" ?ms]
        by (simp add: updateHoldingsFor_missing_buy[OF buy nm None] settled_def)
    next
      case False
      then show ?thesis
        using nm None
          Cons.IH[OF rest named, of hs fx "ms @ [Repair_error (oid ord) nm Invalid_parameters]"]
        by (simp add: updateHoldingsFor_missing_buy[OF buy nm None] settled_def)
    qed
  qed
qed

lemma repair_loop_noop:
  assumes "\<forall>ord\<in>set os. settled hs ord"
  shows "\<exists>ms'. repair_loop os hs fx ms = (hs, Some (fx, ms'))"
  using assms
proof (induction os arbitrary: ms)
  case Nil
  then show ?case by simp
next
  case (Cons ord rest)
  then have rest: "\<forall>x\<in>set rest. settled hs x" by simp
  from Cons.prems obtain nm where nm: "order.name ord = Some nm"
    and s: "findOne hs (toUpperCase nm) \<noteq> None \<or> \<not> valid_buy ord"
    by (auto simp: settled_def split: option.splits)
  show ?case
  proof (cases "findOne hs (toUpperCase nm)")
    case (Some a)
    then show ?thesis using nm Cons.IH[OF rest] by simp
  next
    case None
    with s have "\<not> valid_buy ord" by simp
    then show ?thesis using nm None Cons.IH[OF rest] by (simp add: updateHoldingsFor_invalid)
  qed
qed

lemma repair_holdings_idempotent_if_named:
  assumes "\<forall>ord\<in>set (executedBuyOrders (orders st)). order.name ord \<noteq> None"
  shows "\<exists>ms. repair_holdings (fst (repair_holdings st))
           = (fst (repair_holdings st),
              Repair_complete 0 ms (length (executedBuyOrders (orders st))))"
proof -
  let ?os = "executedBuyOrders (orders st)"
  let ?hs = "fst (repair_loop ?os (holdings st) 0 [])"
  have "\<forall>ord\<in>set ?os. settled ?hs ord"
    using executedBuyOrders_buy assms by (rule repair_loop_covers)
  then obtain ms where "repair_loop ?os ?hs 0 [] = (?hs, Some (0, ms))"
    using repair_loop_noop by blast
  then have "repair_holdings (fst (repair_holdings st))
      = (fst (repair_holdings st), Repair_complete 0 ms (length ?os))"
    by (simp add: repair_holdings_fst) (simp add: repair_holdings_def Let_def)
  then show ?thesis by blast
qed

text \<open>
  C8. The store after \<^verbatim>\<open>POST /newOrder\<close> for a manual BUY without a name holds an
  executed BUY order without a name (the update threw, and the answer sends the caller to
  this repair). There the repair throws at \<^verbatim>\<open>order.name.toUpperCase()\<close>: the first run and
  the second run both answer with the status 500, and no run reports \<open>fixed = 0\<close>.
\<close>

theorem repair_fails_on_nameless_order:
  "newOrder \<lparr>orders = [], holdings = []\<rparr> None 1 1 ''buy'' False False
     = (nameless_store, Holdings_update_failed nameless_buy)
   \<and> repair_holdings nameless_store = (nameless_store, Failed_to_repair_holdings)
   \<and> repair_holdings (fst (repair_holdings nameless_store))
     = (nameless_store, Failed_to_repair_holdings)"
proof -
  have n: "newOrder \<lparr>orders = [], holdings = []\<rparr> None 1 1 ''buy'' False False
     = (nameless_store, Holdings_update_failed nameless_buy)"
    by (simp add: newOrder_def Let_def fresh_id_def updateHoldings_def nameless_store_def
          nameless_buy_def)
  have r: "repair_holdings nameless_store = (nameless_store, Failed_to_repair_holdings)"
    by (simp add: repair_holdings_def executedBuyOrders_def nameless_store_def nameless_buy_def
          buy_lower)
  show ?thesis using n r by simp
qed


end
